theory Spec2Isabelle
  imports Complex_Main "HOL-Library.Word"
begin

section \<open>The runtime values of serpens (src/runtime/value.h, src/runtime/value.cc)\<close>

subsection \<open>Machine types\<close>

text \<open>
  \<^verbatim>\<open>typedef int64_t i64; typedef double f64;\<close> and the plain \<^verbatim>\<open>int\<close> of the loop
  counter and of the string cursor (32 bits on the targets of this code).
  The sum, difference and product of two \<^verbatim>\<open>i64\<close> are taken on 64 bits in two's
  complement, the result the compiled code hands to \<^verbatim>\<open>from_int\<close> (the C++ standard
  leaves a signed overflow undefined). A division without a result (a divisor zero, or
  the least \<^verbatim>\<open>i64\<close> divided by \<open>-1\<close>) traps, and what follows the increment of an
  \<^verbatim>\<open>int\<close> counter or of a cursor beyond the largest value of its type differs between
  builds: the model makes these an outcome of their own instead of picking a result.
\<close>

type_synonym i64 = "64 word"
type_synonym i32 = "32 word"

text \<open>
  What a call can do instead of returning:
  \<^item> \<open>Exit text status\<close>: \<^verbatim>\<open>error(loc, fmt)\<close> wrote \<open>text\<close> to the error stream and
    called \<^verbatim>\<open>exit(status)\<close>;
  \<^item> \<open>UndefinedBehaviour\<close>: a division without a result, or a counter or cursor
    incremented beyond the largest value of its type;
  \<^item> \<open>OutOfRange\<close>: \<^verbatim>\<open>std::string::substr\<close> threw \<^verbatim>\<open>std::out_of_range\<close>.
\<close>

datatype fault = Exit string nat | UndefinedBehaviour | OutOfRange

definition i64_fits :: "int \<Rightarrow> bool" where
  "i64_fits x \<longleftrightarrow> - (2 ^ 63) \<le> x \<and> x < 2 ^ 63"

definition i32_fits :: "int \<Rightarrow> bool" where
  "i32_fits x \<longleftrightarrow> - (2 ^ 31) \<le> x \<and> x < 2 ^ 31"

text \<open>Division of C++ integers truncates towards zero; HOL's \<open>div\<close> rounds down.\<close>

definition trunc_div :: "int \<Rightarrow> int \<Rightarrow> int" where
  "trunc_div a b = sgn a * sgn b * (\<bar>a\<bar> div \<bar>b\<bar>)"

definition i64_div :: "i64 \<Rightarrow> i64 \<Rightarrow> fault + i64" where
  "i64_div a b =
     (if b = 0 then Inl UndefinedBehaviour
      else if i64_fits (trunc_div (sint a) (sint b))
        then Inr (word_of_int (trunc_div (sint a) (sint b)))
        else Inl UndefinedBehaviour)"

text \<open>
  The arithmetic of \<^verbatim>\<open>double\<close> is the platform's, not this repository's: it is a
  parameter of the model. \<open>of_i64\<close> is the implicit conversion of an \<^verbatim>\<open>i64\<close> operand
  to \<^verbatim>\<open>double\<close>, \<open>f64_show\<close> the text \<^verbatim>\<open>std::cout << double\<close> writes.
\<close>

record 'f f64_ops =
  of_i64 :: "i64 \<Rightarrow> 'f"
  f64_add :: "'f \<Rightarrow> 'f \<Rightarrow> 'f"
  f64_sub :: "'f \<Rightarrow> 'f \<Rightarrow> 'f"
  f64_mul :: "'f \<Rightarrow> 'f \<Rightarrow> 'f"
  f64_div :: "'f \<Rightarrow> 'f \<Rightarrow> 'f"
  f64_show :: "'f \<Rightarrow> string"

subsection \<open>Values and iterator objects\<close>

datatype ValueKind =
  VK_Nothing | VK_Integer | VK_String | VK_Float | VK_BuiltInFunction | VK_Iterator | VK_Range

text \<open>
  \<^verbatim>\<open>struct StringIterator { string str; int index; }\<close> and
  \<^verbatim>\<open>struct RangeIterator { i64 start; i64 end; i64 current; }\<close>, the two implementations
  of \<^verbatim>\<open>struct Iterator\<close>.
\<close>

datatype Iterator =
  StringIterator string i32
  | RangeIterator i64 i64 i64

text \<open>
  \<^verbatim>\<open>struct Value\<close>: the kind tag with the member of the union it selects. The callable of
  a builtin is a function pointer, kept as its address.
\<close>

type_synonym funptr = nat

datatype 'f Value =
  Nothing
  | Integer i64
  | String string
  | Float 'f
  | BuiltInFunction string funptr
  | Iterator Iterator
  | RangeValue i64 i64

fun kind :: "'f Value \<Rightarrow> ValueKind" where
  "kind Nothing = VK_Nothing"
| "kind (Integer _) = VK_Integer"
| "kind (String _) = VK_String"
| "kind (Float _) = VK_Float"
| "kind (BuiltInFunction _ _) = VK_BuiltInFunction"
| "kind (Iterator _) = VK_Iterator"
| "kind (RangeValue _ _) = VK_Range"

subsection \<open>Fatal errors\<close>

text \<open>
  \<^verbatim>\<open>error(loc, fmt, ...)\<close> prints \<^verbatim>\<open>"%s: Error: "\<close> with \<open>loc\<close>, the formatted message
  and a newline to the error stream, then calls \<^verbatim>\<open>exit(1)\<close>. Every caller passes a
  format without conversions and no further argument, so the message is \<open>fmt\<close> itself.
\<close>

definition error :: "string \<Rightarrow> string \<Rightarrow> fault + 'a" where
  "error loc fmt = Inl (Exit (loc @ '': Error: '' @ fmt @ [CHR 0x0A]) 1)"

subsection \<open>Construction\<close>

definition from_int :: "i64 \<Rightarrow> 'f Value" where
  "from_int v = Integer v"

definition from_string :: "string \<Rightarrow> 'f Value" where
  "from_string v = String v"

definition from_float :: "'f \<Rightarrow> 'f Value" where
  "from_float v = Float v"

definition from_iterator :: "Iterator \<Rightarrow> 'f Value" where
  "from_iterator it = Iterator it"

definition from_range :: "i64 \<Rightarrow> i64 \<Rightarrow> 'f Value" where
  "from_range s e = RangeValue s e"

definition from_builtin :: "string \<Rightarrow> funptr \<Rightarrow> 'f Value" where
  "from_builtin name func = BuiltInFunction name func"

subsection \<open>Iterators\<close>

text \<open>
  \<^verbatim>\<open>index < str.size()\<close> compares an \<^verbatim>\<open>int\<close> with a \<^verbatim>\<open>size_t\<close>: the \<^verbatim>\<open>int\<close> is
  converted to the unsigned 64-bit type first (sign-extended, then read as unsigned).
\<close>

definition size_t_of_int :: "i32 \<Rightarrow> nat" where
  "size_t_of_int i = unat (scast i :: 64 word)"

text \<open>
  A method of an iterator object takes the object and returns it with its result, so that
  what the method does to the fields is part of the model.
\<close>

fun has_next :: "Iterator \<Rightarrow> bool \<times> Iterator" where
  "has_next (StringIterator str index) =
     (size_t_of_int index < length str, StringIterator str index)"
| "has_next (RangeIterator start end current) =
     (sint current < sint end, RangeIterator start end current)"

text \<open>
  The method \<^verbatim>\<open>next\<close>, here \<open>next_value\<close>. In \<^verbatim>\<open>str.substr(index++, 1)\<close> and
  \<^verbatim>\<open>current++\<close> the increment overflows at the largest value of the cursor's type;
  \<^verbatim>\<open>substr(pos, 1)\<close> throws when \<open>pos\<close> is beyond the size and otherwise returns the at
  most one character at \<open>pos\<close>.
\<close>

fun next_value :: "Iterator \<Rightarrow> fault + ('f Value \<times> Iterator)" where
  "next_value (StringIterator str index) =
     (if \<not> i32_fits (sint index + 1) then Inl UndefinedBehaviour
      else if size_t_of_int index > length str then Inl OutOfRange
      else Inr (from_string (take 1 (drop (size_t_of_int index) str)),
                StringIterator str (index + 1)))"
| "next_value (RangeIterator start end current) =
     (if \<not> i64_fits (sint current + 1) then Inl UndefinedBehaviour
      else Inr (from_int current, RangeIterator start end (current + 1)))"

text \<open>\<^verbatim>\<open>Value::iter\<close>: the iterator starts at index 0, or at the start of the range.\<close>

fun Value_iter :: "'f Value \<Rightarrow> string \<Rightarrow> fault + 'f Value" where
  "Value_iter (String s) loc = Inr (from_iterator (StringIterator s 0))"
| "Value_iter (RangeValue s e) loc = Inr (from_iterator (RangeIterator s e s))"
| "Value_iter _ loc = error loc ''value is not iterable''"

subsection \<open>Arithmetic\<close>

text \<open>
  The loop of string repetition,
  \<^verbatim>\<open>for (int i = 0; i < other->as_int; i++) result += *this->as_string;\<close>
  The counter is an \<^verbatim>\<open>int\<close>, the bound an \<^verbatim>\<open>i64\<close>: the comparison is made on 64 bits,
  the increment on 32.
\<close>

function repeat_loop :: "string \<Rightarrow> i64 \<Rightarrow> i32 \<Rightarrow> string \<Rightarrow> fault + string" where
  "repeat_loop s n i result =
     (if sint i < sint n
      then (if i32_fits (sint i + 1) then repeat_loop s n (i + 1) (result @ s)
            else Inl UndefinedBehaviour)
      else Inr result)"
  by pat_completeness auto
termination
proof (relation "measure (\<lambda>(s, n, i, result). nat (2 ^ 31 - sint i))")
  show "wf (measure (\<lambda>(s, n, i, result). nat (2 ^ 31 - sint i)))"
    by simp
next
  fix s :: string and n :: i64 and i :: i32 and result :: string
  assume "sint i < sint n" and fits: "i32_fits (sint i + 1)"
  from fits have "sint (i + 1) = sint i + 1"
    by (simp add: i32_fits_def sint_word_add signed_take_bit_int_eq_self)
  with fits show "((s, n, i + 1, result @ s), (s, n, i, result))
      \<in> measure (\<lambda>(s, n, i, result). nat (2 ^ 31 - sint i))"
    by (simp add: i32_fits_def)
qed

text \<open>
  The four operations, each the chain of kind tests of the source in its order, ending in
  \<^verbatim>\<open>error(loc, ...)\<close>. Mixed operands are converted by \<open>of_i64\<close> as the usual
  arithmetic conversions of C++ do.
\<close>

fun Value_add :: "'f f64_ops \<Rightarrow> 'f Value \<Rightarrow> 'f Value \<Rightarrow> string \<Rightarrow> fault + 'f Value" where
  "Value_add ops (Integer a) (Integer b) loc = Inr (from_int (a + b))"
| "Value_add ops (Integer a) (Float b) loc = Inr (from_float (f64_add ops (of_i64 ops a) b))"
| "Value_add ops (Float a) (Integer b) loc = Inr (from_float (f64_add ops a (of_i64 ops b)))"
| "Value_add ops (Float a) (Float b) loc = Inr (from_float (f64_add ops a b))"
| "Value_add ops (String a) (String b) loc = Inr (from_string (a @ b))"
| "Value_add ops _ _ loc = error loc ''invalid operands to binary +''"

fun Value_sub :: "'f f64_ops \<Rightarrow> 'f Value \<Rightarrow> 'f Value \<Rightarrow> string \<Rightarrow> fault + 'f Value" where
  "Value_sub ops (Integer a) (Integer b) loc = Inr (from_int (a - b))"
| "Value_sub ops (Integer a) (Float b) loc = Inr (from_float (f64_sub ops (of_i64 ops a) b))"
| "Value_sub ops (Float a) (Integer b) loc = Inr (from_float (f64_sub ops a (of_i64 ops b)))"
| "Value_sub ops (Float a) (Float b) loc = Inr (from_float (f64_sub ops a b))"
| "Value_sub ops _ _ loc = error loc ''invalid operands to binary +''"

fun Value_mul :: "'f f64_ops \<Rightarrow> 'f Value \<Rightarrow> 'f Value \<Rightarrow> string \<Rightarrow> fault + 'f Value" where
  "Value_mul ops (Integer a) (Integer b) loc = Inr (from_int (a * b))"
| "Value_mul ops (Integer a) (Float b) loc = Inr (from_float (f64_mul ops (of_i64 ops a) b))"
| "Value_mul ops (Float a) (Integer b) loc = Inr (from_float (f64_mul ops a (of_i64 ops b)))"
| "Value_mul ops (Float a) (Float b) loc = Inr (from_float (f64_mul ops a b))"
| "Value_mul ops (String a) (Integer b) loc =
     (case repeat_loop a b 0 [] of Inl e \<Rightarrow> Inl e | Inr result \<Rightarrow> Inr (from_string result))"
| "Value_mul ops _ _ loc = error loc ''invalid operands to binary +''"

fun Value_div :: "'f f64_ops \<Rightarrow> 'f Value \<Rightarrow> 'f Value \<Rightarrow> string \<Rightarrow> fault + 'f Value" where
  "Value_div ops (Integer a) (Integer b) loc =
     (case i64_div a b of Inl e \<Rightarrow> Inl e | Inr r \<Rightarrow> Inr (from_int r))"
| "Value_div ops (Integer a) (Float b) loc = Inr (from_float (f64_div ops (of_i64 ops a) b))"
| "Value_div ops (Float a) (Integer b) loc = Inr (from_float (f64_div ops a (of_i64 ops b)))"
| "Value_div ops (Float a) (Float b) loc = Inr (from_float (f64_div ops a b))"
| "Value_div ops _ _ loc = error loc ''invalid operands to binary +''"

subsection \<open>Printing\<close>

text \<open>
  \<^verbatim>\<open>std::cout << arg->as_int\<close> writes the \<^verbatim>\<open>i64\<close> in base 10, with a minus sign when
  it is negative.
\<close>

definition digit :: "nat \<Rightarrow> char" where
  "digit d = ''0123456789'' ! d"

function decimal :: "nat \<Rightarrow> string" where
  "decimal n = (if n < 10 then [digit n] else decimal (n div 10) @ [digit (n mod 10)])"
  by pat_completeness auto
termination
  by (relation "measure id") auto

definition show_i64 :: "i64 \<Rightarrow> string" where
  "show_i64 v = (if sint v < 0 then CHR ''-'' # decimal (nat (- sint v)) else decimal (nat (sint v)))"

text \<open>
  The \<^verbatim>\<open>switch (arg->kind)\<close> of \<^verbatim>\<open>print\<close>. Its \<^verbatim>\<open>default:\<close> branch has no kind left to
  take it.
\<close>

fun print_arg :: "'f f64_ops \<Rightarrow> 'f Value \<Rightarrow> string" where
  "print_arg ops Nothing = ''nothing''"
| "print_arg ops (Integer v) = show_i64 v"
| "print_arg ops (Float v) = f64_show ops v"
| "print_arg ops (String v) = v"
| "print_arg ops (RangeValue s e) = show_i64 s @ ''..'' @ show_i64 e"
| "print_arg ops (Iterator it) = ''<iterator>''"
| "print_arg ops (BuiltInFunction name func) = ''<builtin function: '' @ name @ ''>''"

text \<open>The loop over the arguments: the text of each, then a space.\<close>

fun print_args :: "'f f64_ops \<Rightarrow> 'f Value list \<Rightarrow> string" where
  "print_args ops [] = []"
| "print_args ops (arg # args) = print_arg ops arg @ '' '' @ print_args ops args"

text \<open>
  \<^verbatim>\<open>print\<close> returns the text it wrote to the standard output with its result, the
  global \<^verbatim>\<open>Nothing\<close>.
\<close>

definition print :: "'f f64_ops \<Rightarrow> 'f Value list \<Rightarrow> string \<Rightarrow> string \<times> (fault + 'f Value)" where
  "print ops args loc = (print_args ops args @ [CHR 0x0A], Inr Nothing)"

subsection \<open>Consuming an iterator\<close>

text \<open>
  The protocol of the interface: \<^verbatim>\<open>next\<close> is called only after \<^verbatim>\<open>has_next\<close> returned
  true. \<open>drain\<close> is the caller that follows it until \<^verbatim>\<open>has_next\<close> is false, and
  returns the values in the order they came with the iterator as it is left.
\<close>

function drain :: "Iterator \<Rightarrow> fault + ('f Value list \<times> Iterator)" where
  "drain it =
     (case has_next it of (again, it1) \<Rightarrow>
        if again
        then (case next_value it1 of
                Inl e \<Rightarrow> Inl e
              | Inr (v, it2) \<Rightarrow>
                  (case drain it2 of Inl e \<Rightarrow> Inl e | Inr (vs, it3) \<Rightarrow> Inr (v # vs, it3)))
        else Inr ([], it1))"
  by pat_completeness auto

text \<open>What is left of the cursor's way: the measure that makes \<open>drain\<close> total.\<close>

fun remaining :: "Iterator \<Rightarrow> nat" where
  "remaining (StringIterator str index) = nat (2 ^ 31 - sint index)"
| "remaining (RangeIterator start end current) = nat (sint end - sint current)"

termination drain
proof (relation "measure remaining")
  show "wf (measure remaining)"
    by simp
next
  fix it it1 it2 :: Iterator and again :: bool and r :: "'f Value \<times> Iterator" and v :: "'f Value"
  assume "(again, it1) = has_next it" and again and "next_value it1 = Inr r" and "(v, it2) = r"
  then have more: "has_next it = (True, it1)" and step: "next_value it1 = Inr (v, it2)"
    by simp_all
  have "remaining it2 < remaining it"
  proof (cases it)
    case (StringIterator str index)
    with more step have fits: "i32_fits (sint index + 1)"
      and it2: "it2 = StringIterator str (index + 1)"
      by (auto split: if_splits)
    from fits have "sint (index + 1) = sint index + 1"
      by (simp add: i32_fits_def sint_word_add signed_take_bit_int_eq_self)
    with fits it2 StringIterator show ?thesis
      by (simp add: i32_fits_def)
  next
    case (RangeIterator start fin current)
    with more step have less: "sint current < sint fin" and fits: "i64_fits (sint current + 1)"
      and it2: "it2 = RangeIterator start fin (current + 1)"
      by (auto split: if_splits)
    from fits have "sint (current + 1) = sint current + 1"
      by (simp add: i64_fits_def sint_word_add signed_take_bit_int_eq_self)
    with less it2 RangeIterator show ?thesis
      by simp
  qed
  then show "(it2, it) \<in> measure remaining"
    by simp
qed

subsection \<open>Notions used to state the properties\<close>

text \<open>The numeric kinds of the coercion table.\<close>

definition numeric :: "'f Value \<Rightarrow> bool" where
  "numeric v \<longleftrightarrow> kind v = VK_Integer \<or> kind v = VK_Float"

text \<open>
  The decimal textual form of a number, in the words of the specification and apart from
  the printing code: a text of one character or more, each of the digits \<open>0\<close> to \<open>9\<close>
  (character codes 48 to 57), that read from the left in base 10 gives the number, with
  no leading zero but for the text \<open>0\<close> itself. A number has one such text.
\<close>

definition decimal_form :: "string \<Rightarrow> nat \<Rightarrow> bool" where
  "decimal_form t n \<longleftrightarrow>
     t \<noteq> []
     \<and> (\<forall>c \<in> set t. 48 \<le> (of_char c :: nat) \<and> (of_char c :: nat) \<le> 57)
     \<and> foldl (\<lambda>acc c. 10 * acc + (of_char c - 48)) 0 t = n
     \<and> (hd t = CHR ''0'' \<longrightarrow> t = ''0'')"

text \<open>
  An instance of the \<^verbatim>\<open>double\<close> parameter for concrete inputs: the rationals with
  their exact arithmetic. It agrees with IEEE arithmetic wherever operands and result
  are representable, as the small integers and halves used below are.
\<close>

definition exact_ops :: "rat f64_ops" where
  "exact_ops = \<lparr> of_i64 = (\<lambda>v. of_int (sint v)), f64_add = (+), f64_sub = (-),
     f64_mul = (*), f64_div = (/), f64_show = (\<lambda>x. ''<float>'') \<rparr>"

section \<open>Facts about the machine arithmetic\<close>

declare repeat_loop.simps [simp del]
declare drain.simps [simp del]
declare decimal.simps [simp del]

lemma sint_succ_i32: "i32_fits (sint (i :: i32) + 1) \<Longrightarrow> sint (i + 1) = sint i + 1"
  by (simp add: i32_fits_def sint_word_add signed_take_bit_int_eq_self)

lemma sint_succ_i64: "i64_fits (sint (c :: i64) + 1) \<Longrightarrow> sint (c + 1) = sint c + 1"
  by (simp add: i64_fits_def sint_word_add signed_take_bit_int_eq_self)

lemma sint_add_fits: "i64_fits (sint (a :: i64) + sint b) \<Longrightarrow> sint (a + b) = sint a + sint b"
  by (simp add: i64_fits_def sint_word_add signed_take_bit_int_eq_self)

lemma sint_sub_fits: "i64_fits (sint (a :: i64) - sint b) \<Longrightarrow> sint (a - b) = sint a - sint b"
  by (simp add: i64_fits_def sint_word_diff signed_take_bit_int_eq_self)

lemma sint_mul_fits: "i64_fits (sint (a :: i64) * sint b) \<Longrightarrow> sint (a * b) = sint a * sint b"
  by (simp add: i64_fits_def sint_word_mult signed_take_bit_int_eq_self)

lemma sint_of_int_fits: "i64_fits x \<Longrightarrow> sint (word_of_int x :: i64) = x"
  by (simp add: i64_fits_def sint_sbintrunc' signed_take_bit_int_eq_self)

lemma i64_zero: "sint (a :: i64) = 0 \<longleftrightarrow> a = 0"
  by (metis signed_word_eqI sint_0)

lemma i64_minus_one: "sint (a :: i64) = - 1 \<longleftrightarrow> a = - 1"
  by (metis sint_n1 signed_word_eqI)

lemma i64_least: "sint (a :: i64) = - (2 ^ 63) \<longleftrightarrow> a = - (2 ^ 63)"
proof
  assume "sint a = - (2 ^ 63)"
  then have "sint a = sint (- (2 ^ 63) :: i64)"
    by simp
  then show "a = - (2 ^ 63)"
    by (rule signed_word_eqI)
qed simp

text \<open>
  \<open>trunc_div\<close> is the quotient rounded towards zero: its magnitude is the quotient of
  the magnitudes, rounded down. The only quotient of two \<^verbatim>\<open>i64\<close> with a divisor other
  than zero that is not an \<^verbatim>\<open>i64\<close> is that of the least value by \<open>-1\<close>.
\<close>

lemma trunc_div_abs: "\<bar>trunc_div x y\<bar> = \<bar>x\<bar> div \<bar>y\<bar>"
  by (cases "x = 0"; cases "y = 0") (simp_all add: trunc_div_def abs_mult div_int_pos_iff)

lemma trunc_div_one: "trunc_div x 1 = x"
  by (simp add: trunc_div_def mult_sgn_abs)

lemma trunc_div_minus_one: "trunc_div x (- 1) = - x"
  by (simp add: trunc_div_def mult_sgn_abs)

lemma trunc_div_fits:
  assumes lo: "- (2 ^ 63) \<le> x" and hi: "x < 2 ^ 63" and y: "y \<noteq> 0"
    and ne: "\<not> (x = - (2 ^ 63) \<and> y = - 1)"
  shows "i64_fits (trunc_div x y)"
proof -
  consider "y = 1" | "y = - 1" | "2 \<le> \<bar>y\<bar>"
    using y by linarith
  then show ?thesis
  proof cases
    case 1
    with lo hi show ?thesis
      by (simp add: trunc_div_one i64_fits_def)
  next
    case 2
    with lo hi ne show ?thesis
      by (simp add: trunc_div_minus_one i64_fits_def)
  next
    case 3
    have "\<bar>x\<bar> div \<bar>y\<bar> \<le> \<bar>x\<bar> div 2"
      using 3 by (intro zdiv_mono2) simp_all
    also have "\<dots> \<le> 2 ^ 63 div 2"
      using lo hi by (intro zdiv_mono1) simp_all
    finally have "\<bar>trunc_div x y\<bar> \<le> 2 ^ 62"
      by (simp add: trunc_div_abs)
    then show ?thesis
      unfolding i64_fits_def by (simp add: abs_le_iff)
  qed
qed

lemma i64_div_fits:
  fixes a b :: i64
  assumes "b \<noteq> 0" and "\<not> (a = - (2 ^ 63) \<and> b = - 1)"
  shows "i64_fits (trunc_div (sint a) (sint b))"
proof (rule trunc_div_fits)
  show "- (2 ^ 63) \<le> sint a"
    using sint_ge [of a] by simp
  show "sint a < 2 ^ 63"
    using sint_lt [of a] by simp
  show "sint b \<noteq> 0"
    using assms(1) i64_zero [of b] by blast
  show "\<not> (sint a = - (2 ^ 63) \<and> sint b = - 1)"
    using assms(2) i64_least [of a] i64_minus_one [of b] by blast
qed

lemma i64_div_defined:
  fixes a b :: i64
  assumes "b \<noteq> 0" and "\<not> (a = - (2 ^ 63) \<and> b = - 1)"
  shows "i64_div a b = Inr (word_of_int (trunc_div (sint a) (sint b)))"
  using assms i64_div_fits [OF assms] by (simp add: i64_div_def)

text \<open>A cursor that is not negative converts to \<^verbatim>\<open>size_t\<close> without change.\<close>

lemma size_t_of_int_nonneg:
  assumes "0 \<le> sint i"
  shows "size_t_of_int i = nat (sint i)"
proof -
  have "sint i < 2 ^ 64"
  proof -
    have "sint i < 2 ^ (LENGTH(32) - 1)"
      by (rule sint_lt)
    also have "\<dots> < (2 ^ 64 :: int)"
      by simp
    finally show ?thesis .
  qed
  with assms have "take_bit 64 (sint i) = sint i"
    by (simp add: take_bit_int_eq_self)
  moreover have "uint (scast i :: 64 word) = take_bit 64 (sint i)"
    by (subst scast_eq, subst uint_word_of_int_eq) simp
  ultimately show ?thesis
    by (simp add: size_t_of_int_def unat_eq_nat_uint)
qed

lemma i32_of_nat_sint: "0 \<le> sint (i :: i32) \<Longrightarrow> word_of_nat (nat (sint i)) = i"
  by (simp add: of_nat_nat)

section \<open>Arithmetic\<close>

subsection \<open>The coercion table\<close>

text \<open>
  C1, as the code has it. The four operations follow the coercion table: two Integers
  give an Integer, the 64-bit result of the operation, for \<^verbatim>\<open>div\<close> whenever the
  divisor is not zero and the operands are not the least \<^verbatim>\<open>i64\<close> and \<open>-1\<close>; an Integer
  with a Float, in either order, gives the Float of the operation on the converted Integer
  and the Float; two Floats give the Float of the operation.
\<close>

theorem coercion_table:
  "Value_add ops (Integer a) (Integer b) loc = Inr (Integer (a + b))
   \<and> Value_sub ops (Integer a) (Integer b) loc = Inr (Integer (a - b))
   \<and> Value_mul ops (Integer a) (Integer b) loc = Inr (Integer (a * b))
   \<and> (b \<noteq> 0 \<and> \<not> (a = - (2 ^ 63) \<and> b = - 1)
      \<longrightarrow> Value_div ops (Integer a) (Integer b) loc
          = Inr (Integer (word_of_int (trunc_div (sint a) (sint b)))))
   \<and> Value_add ops (Integer a) (Float y) loc = Inr (Float (f64_add ops (of_i64 ops a) y))
   \<and> Value_sub ops (Integer a) (Float y) loc = Inr (Float (f64_sub ops (of_i64 ops a) y))
   \<and> Value_mul ops (Integer a) (Float y) loc = Inr (Float (f64_mul ops (of_i64 ops a) y))
   \<and> Value_div ops (Integer a) (Float y) loc = Inr (Float (f64_div ops (of_i64 ops a) y))
   \<and> Value_add ops (Float x) (Integer b) loc = Inr (Float (f64_add ops x (of_i64 ops b)))
   \<and> Value_sub ops (Float x) (Integer b) loc = Inr (Float (f64_sub ops x (of_i64 ops b)))
   \<and> Value_mul ops (Float x) (Integer b) loc = Inr (Float (f64_mul ops x (of_i64 ops b)))
   \<and> Value_div ops (Float x) (Integer b) loc = Inr (Float (f64_div ops x (of_i64 ops b)))
   \<and> Value_add ops (Float x) (Float y) loc = Inr (Float (f64_add ops x y))
   \<and> Value_sub ops (Float x) (Float y) loc = Inr (Float (f64_sub ops x y))
   \<and> Value_mul ops (Float x) (Float y) loc = Inr (Float (f64_mul ops x y))
   \<and> Value_div ops (Float x) (Float y) loc = Inr (Float (f64_div ops x y))"
  by (simp add: i64_div_defined from_int_def from_float_def)

text \<open>
  The examples of the specification: \<open>2 + 3\<close>, \<open>2 + 3.0\<close> and \<open>1.5 + 2\<close>, with the
  other three operations on the Integers 2 and 3.
\<close>

theorem coercion_table_witness:
  "(3 :: i64) \<noteq> 0 \<and> \<not> ((2 :: i64) = - (2 ^ 63) \<and> (3 :: i64) = - 1)
   \<and> Value_add exact_ops (Integer 2) (Integer 3) [] = Inr (Integer 5)
   \<and> Value_sub exact_ops (Integer 2) (Integer 3) [] = Inr (Integer (- 1))
   \<and> Value_mul exact_ops (Integer 2) (Integer 3) [] = Inr (Integer 6)
   \<and> Value_div exact_ops (Integer 2) (Integer 3) [] = Inr (Integer 0)
   \<and> Value_add exact_ops (Integer 2) (Float 3) [] = Inr (Float 5)
   \<and> Value_add exact_ops (Float (3 / 2)) (Integer 2) [] = Inr (Float (7 / 2))"
  using coercion_table [where a = 2 and b = 3 and ops = exact_ops and loc = "[]" and y = 3
      and x = "3 / 2"]
    coercion_table [where a = 2 and b = 2 and ops = exact_ops and loc = "[]" and y = 3
      and x = "3 / 2"]
  by (simp add: exact_ops_def trunc_div_def)

text \<open>
  Against C1 as it is written (two Integers always give an Integer): division by the
  Integer 0, and of the least \<^verbatim>\<open>i64\<close> by \<open>-1\<close>.
\<close>

theorem integer_division_without_result:
  "Value_div exact_ops (Integer 1) (Integer 0) [] = Inl UndefinedBehaviour
   \<and> Value_div exact_ops (Integer (- 9223372036854775808)) (Integer (- 1)) []
       = Inl UndefinedBehaviour"
  by (simp add: i64_div_def i64_fits_def trunc_div_def)

text \<open>
  Beyond the range of \<^verbatim>\<open>i64\<close> a sum is not the exact one: the largest \<^verbatim>\<open>i64\<close> and 1
  give the least.
\<close>

lemma Value_add_wraps:
  "Value_add ops (Integer 9223372036854775807) (Integer 1) loc
     = Inr (Integer (- 9223372036854775808))"
  by (simp add: from_int_def)

text \<open>
  C2. Outside the table every operation ends in \<^verbatim>\<open>error\<close>: the diagnostic goes to
  the error stream, the process exits with status 1, and no Value is returned. For
  \<^verbatim>\<open>add\<close> that is every pair that is neither numeric nor two Strings, for \<^verbatim>\<open>sub\<close>
  and \<^verbatim>\<open>div\<close> every pair that is not numeric, for \<^verbatim>\<open>mul\<close> every pair that is
  neither numeric nor a String with an Integer.
\<close>

theorem unsupported_operands_fault:
  "(\<not> (numeric x \<and> numeric y) \<and> \<not> (kind x = VK_String \<and> kind y = VK_String)
      \<longrightarrow> Value_add ops x y loc
          = Inl (Exit (loc @ '': Error: invalid operands to binary +'' @ [CHR 0x0A]) 1))
   \<and> (\<not> (numeric x \<and> numeric y)
      \<longrightarrow> Value_sub ops x y loc
          = Inl (Exit (loc @ '': Error: invalid operands to binary +'' @ [CHR 0x0A]) 1))
   \<and> (\<not> (numeric x \<and> numeric y) \<and> \<not> (kind x = VK_String \<and> kind y = VK_Integer)
      \<longrightarrow> Value_mul ops x y loc
          = Inl (Exit (loc @ '': Error: invalid operands to binary +'' @ [CHR 0x0A]) 1))
   \<and> (\<not> (numeric x \<and> numeric y)
      \<longrightarrow> Value_div ops x y loc
          = Inl (Exit (loc @ '': Error: invalid operands to binary +'' @ [CHR 0x0A]) 1))"
  by (cases x; cases y; simp add: numeric_def error_def)

theorem unsupported_operands_fault_witness:
  "\<not> (numeric (Nothing :: rat Value) \<and> numeric (Integer 1 :: rat Value))
   \<and> \<not> (numeric (Integer 2 :: rat Value) \<and> numeric (String ''ab'' :: rat Value))
   \<and> Value_add exact_ops Nothing (Integer 1) ''a.sp:1''
       = Inl (Exit ''a.sp:1: Error: invalid operands to binary +\<newline>'' 1)
   \<and> Value_sub exact_ops Nothing (Integer 1) ''a.sp:1''
       = Inl (Exit ''a.sp:1: Error: invalid operands to binary +\<newline>'' 1)
   \<and> Value_div exact_ops Nothing (Integer 1) ''a.sp:1''
       = Inl (Exit ''a.sp:1: Error: invalid operands to binary +\<newline>'' 1)
   \<and> Value_mul exact_ops (Integer 2) (String ''ab'') ''a.sp:1''
       = Inl (Exit ''a.sp:1: Error: invalid operands to binary +\<newline>'' 1)"
  using unsupported_operands_fault [where x = Nothing and y = "Integer 1" and ops = exact_ops
      and loc = "''a.sp:1''"]
    unsupported_operands_fault [where x = "Integer 2" and y = "String ''ab''"
      and ops = exact_ops and loc = "''a.sp:1''"]
  by (simp add: numeric_def)

text \<open>
  C3, where the code departs from it. The diagnostic has the format
  \<open><location>: Error: <message>\<close> and the exit status is 1, but the message of
  \<^verbatim>\<open>sub\<close>, \<^verbatim>\<open>mul\<close> and \<^verbatim>\<open>div\<close> is the one of \<^verbatim>\<open>add\<close>, operator \<open>+\<close> included:
  the text does not tell which operation was invoked.
\<close>

theorem operand_diagnostic_names_plus:
  "Value_sub ops Nothing (Integer 1) loc
     = Inl (Exit (loc @ '': Error: invalid operands to binary +'' @ [CHR 0x0A]) 1)
   \<and> Value_mul ops Nothing (Integer 1) loc = Value_sub ops Nothing (Integer 1) loc
   \<and> Value_div ops Nothing (Integer 1) loc = Value_sub ops Nothing (Integer 1) loc
   \<and> Value_add ops Nothing (Integer 1) loc = Value_sub ops Nothing (Integer 1) loc"
  by (simp add: error_def)

text \<open>
  C4, as the code has it. On two Integers \<^verbatim>\<open>add\<close>, \<^verbatim>\<open>sub\<close> and \<^verbatim>\<open>mul\<close> give the
  Integer whose value is the exact sum, difference or product whenever that is an
  \<^verbatim>\<open>i64\<close>; \<^verbatim>\<open>div\<close> gives the exact quotient rounded towards zero (the sign of the
  quotient with the magnitudes divided rounding down) for every divisor other than zero,
  except for the least \<^verbatim>\<open>i64\<close> divided by \<open>-1\<close>.
\<close>

theorem integer_arithmetic_exact:
  "(i64_fits (sint a + sint b)
      \<longrightarrow> (\<exists>r. Value_add ops (Integer a) (Integer b) loc = Inr (Integer r)
               \<and> sint r = sint a + sint b))
   \<and> (i64_fits (sint a - sint b)
      \<longrightarrow> (\<exists>r. Value_sub ops (Integer a) (Integer b) loc = Inr (Integer r)
               \<and> sint r = sint a - sint b))
   \<and> (i64_fits (sint a * sint b)
      \<longrightarrow> (\<exists>r. Value_mul ops (Integer a) (Integer b) loc = Inr (Integer r)
               \<and> sint r = sint a * sint b))
   \<and> (b \<noteq> 0 \<and> \<not> (a = - (2 ^ 63) \<and> b = - 1)
      \<longrightarrow> (\<exists>r. Value_div ops (Integer a) (Integer b) loc = Inr (Integer r)
               \<and> sint r = sgn (sint a) * sgn (sint b) * (\<bar>sint a\<bar> div \<bar>sint b\<bar>)))"
proof (intro conjI impI)
  assume "i64_fits (sint a + sint b)"
  then show "\<exists>r. Value_add ops (Integer a) (Integer b) loc = Inr (Integer r)
      \<and> sint r = sint a + sint b"
    by (simp add: from_int_def sint_add_fits)
next
  assume "i64_fits (sint a - sint b)"
  then show "\<exists>r. Value_sub ops (Integer a) (Integer b) loc = Inr (Integer r)
      \<and> sint r = sint a - sint b"
    by (simp add: from_int_def sint_sub_fits)
next
  assume "i64_fits (sint a * sint b)"
  then show "\<exists>r. Value_mul ops (Integer a) (Integer b) loc = Inr (Integer r)
      \<and> sint r = sint a * sint b"
    by (simp add: from_int_def sint_mul_fits)
next
  assume ok: "b \<noteq> 0 \<and> \<not> (a = - (2 ^ 63) \<and> b = - 1)"
  then have "i64_fits (trunc_div (sint a) (sint b))"
    by (intro i64_div_fits) simp_all
  then have "sint (word_of_int (trunc_div (sint a) (sint b)) :: i64)
      = trunc_div (sint a) (sint b)"
    by (rule sint_of_int_fits)
  then have "sint (word_of_int (trunc_div (sint a) (sint b)) :: i64)
      = sgn (sint a) * sgn (sint b) * (\<bar>sint a\<bar> div \<bar>sint b\<bar>)"
    by (simp only: trunc_div_def)
  moreover from ok have "Value_div ops (Integer a) (Integer b) loc
      = Inr (Integer (word_of_int (trunc_div (sint a) (sint b))))"
    by (simp add: i64_div_defined from_int_def)
  ultimately show "\<exists>r. Value_div ops (Integer a) (Integer b) loc = Inr (Integer r)
      \<and> sint r = sgn (sint a) * sgn (sint b) * (\<bar>sint a\<bar> div \<bar>sint b\<bar>)"
    by blast
qed

text \<open>The examples of the specification: \<open>7 / 2 = 3\<close> and \<open>-7 / 2 = -3\<close>.\<close>

theorem integer_arithmetic_exact_witness:
  "(2 :: i64) \<noteq> 0 \<and> \<not> ((7 :: i64) = - (2 ^ 63) \<and> (2 :: i64) = - 1)
   \<and> \<not> ((- 7 :: i64) = - (2 ^ 63) \<and> (2 :: i64) = - 1)
   \<and> i64_fits (sint (7 :: i64) + sint (2 :: i64))
   \<and> i64_fits (sint (7 :: i64) - sint (2 :: i64))
   \<and> i64_fits (sint (7 :: i64) * sint (2 :: i64))
   \<and> Value_div exact_ops (Integer 7) (Integer 2) [] = Inr (Integer 3)
   \<and> Value_div exact_ops (Integer (- 7)) (Integer 2) [] = Inr (Integer (- 3))
   \<and> Value_add exact_ops (Integer 7) (Integer 2) [] = Inr (Integer 9)
   \<and> Value_sub exact_ops (Integer 7) (Integer 2) [] = Inr (Integer 5)
   \<and> Value_mul exact_ops (Integer 7) (Integer 2) [] = Inr (Integer 14)"
  using integer_arithmetic_exact [where a = 7 and b = 2 and ops = exact_ops and loc = "[]"]
    integer_arithmetic_exact [where a = "- 7" and b = 2 and ops = exact_ops and loc = "[]"]
  by (simp add: i64_fits_def i64_div_def trunc_div_def from_int_def)

text \<open>
  Against C4 as it is written (for every divisor other than zero the result is the exact
  quotient rounded towards zero): the least \<^verbatim>\<open>i64\<close> divided by \<open>-1\<close>, whose exact
  quotient \<open>2 ^ 63\<close> is no \<^verbatim>\<open>i64\<close>.
\<close>

theorem least_integer_div_minus_one:
  "(- 1 :: i64) \<noteq> 0
   \<and> Value_div exact_ops (Integer (- 9223372036854775808)) (Integer (- 1)) []
       = Inl UndefinedBehaviour"
  by (simp add: i64_div_def i64_fits_def trunc_div_def)

subsection \<open>String repetition\<close>

text \<open>
  For a count below \<open>2 ^ 31\<close> the loop appends the string \<open>n\<close> times to the empty
  result, and never when \<open>n \<le> 0\<close>.
\<close>

lemma repeat_loop_repeats:
  "sint n < 2 ^ 31 \<Longrightarrow> 0 \<le> sint i \<Longrightarrow>
   repeat_loop s n i result = Inr (result @ concat (replicate (nat (sint n - sint i)) s))"
proof (induction s n i result rule: repeat_loop.induct)
  case (1 s n i result)
  show ?case
  proof (cases "sint i < sint n")
    case True
    with "1.prems" have fits: "i32_fits (sint i + 1)"
      by (simp add: i32_fits_def)
    then have succ: "sint (i + 1) = sint i + 1"
      by (rule sint_succ_i32)
    from True have "nat (sint n - sint i) = Suc (nat (sint n - (sint i + 1)))"
      by simp
    then have "concat (replicate (nat (sint n - sint i)) s)
        = s @ concat (replicate (nat (sint n - (sint i + 1))) s)"
      by simp
    moreover have "repeat_loop s n (i + 1) (result @ s)
        = Inr ((result @ s) @ concat (replicate (nat (sint n - sint (i + 1))) s))"
      using True fits "1.prems" succ by (intro "1.IH") simp_all
    ultimately show ?thesis
      using True fits succ by (subst repeat_loop.simps) simp
  next
    case False
    then show ?thesis
      by (subst repeat_loop.simps) simp
  qed
qed

lemma Value_mul_repeats:
  "sint n < 2 ^ 31 \<Longrightarrow>
   Value_mul ops (String s) (Integer n) loc = Inr (String (concat (replicate (nat (sint n)) s)))"
  by (simp add: repeat_loop_repeats from_string_def)

lemma Value_mul_examples:
  "Value_mul ops (String ''ab'') (Integer 3) loc = Inr (String ''ababab'')
   \<and> Value_mul ops (String ''ab'') (Integer 0) loc = Inr (String [])
   \<and> Value_mul ops (String ''ab'') (Integer (- 4)) loc = Inr (String [])"
  using Value_mul_repeats [of 3 ops "''ab''" loc] Value_mul_repeats [of 0 ops "''ab''" loc]
    Value_mul_repeats [of "- 4" ops "''ab''" loc]
  by (simp add: numeral_3_eq_3)

text \<open>
  From \<open>2 ^ 31\<close> on the \<^verbatim>\<open>int\<close> counter cannot reach the \<^verbatim>\<open>i64\<close> count: it stays
  below it up to the largest \<^verbatim>\<open>int\<close>, and the increment there overflows.
\<close>

lemma repeat_loop_overflow:
  "2 ^ 31 \<le> sint n \<Longrightarrow> repeat_loop s n i result = Inl UndefinedBehaviour"
proof (induction s n i result rule: repeat_loop.induct)
  case (1 s n i result)
  have "sint i < 2 ^ (LENGTH(32) - 1)"
    by (rule sint_lt)
  with "1.prems" have less: "sint i < sint n"
    by simp
  show ?case
  proof (cases "i32_fits (sint i + 1)")
    case True
    with less "1.IH" "1.prems" show ?thesis
      by (subst repeat_loop.simps) simp
  next
    case False
    with less show ?thesis
      by (subst repeat_loop.simps) simp
  qed
qed

text \<open>
  C5, where the code departs from it: \<^verbatim>\<open>mul\<close> of a String and an Integer \<open>n\<close> is to
  return the String appended \<open>n\<close> times to the empty result, for every \<open>n\<close>. At the
  count \<open>2 ^ 31\<close> with the empty string that is the empty String; the code returns no
  Value.
\<close>

theorem repeat_count_beyond_int:
  "Value_mul ops (String []) (Integer 2147483648) loc = Inl UndefinedBehaviour"
  by (simp add: repeat_loop_overflow)

section \<open>Iteration\<close>

text \<open>
  A Range gives its integers in increasing order, from \<open>start\<close> up to \<open>end\<close>
  excluded, and leaves the iterator at \<open>end\<close> where \<^verbatim>\<open>has_next\<close> is false; no
  increment of its cursor overflows.
\<close>

lemma drain_range:
  "(drain (RangeIterator s e c) :: fault + ('f Value list \<times> Iterator))
     = Inr (map (\<lambda>k. Integer (word_of_int k)) [sint c .. sint e - 1],
         RangeIterator s e (if sint c < sint e then e else c))"
proof (induction "remaining (RangeIterator s e c)" arbitrary: c rule: less_induct)
  case less
  show ?case
  proof (cases "sint c < sint e")
    case True
    have "sint e < 2 ^ (LENGTH(64) - 1)"
      by (rule sint_lt)
    with True sint_ge [of c] have fits: "i64_fits (sint c + 1)"
      by (simp add: i64_fits_def)
    then have succ: "sint (c + 1) = sint c + 1"
      by (rule sint_succ_i64)
    with True
    have IH: "(drain (RangeIterator s e (c + 1)) :: fault + ('f Value list \<times> Iterator))
        = Inr (map (\<lambda>k. Integer (word_of_int k)) [sint (c + 1) .. sint e - 1],
            RangeIterator s e (if sint (c + 1) < sint e then e else c + 1))"
      by (intro less.hyps) simp
    have last: "(if sint (c + 1) < sint e then e else c + 1) = e"
    proof (cases "sint (c + 1) < sint e")
      case False
      with True succ have "sint (c + 1) = sint e"
        by simp
      then have "c + 1 = e"
        by (rule signed_word_eqI)
      then show ?thesis
        by simp
    qed simp
    from True have "[sint c .. sint e - 1] = sint c # [sint c + 1 .. sint e - 1]"
      by (simp add: upto_rec1)
    with True fits succ IH last show ?thesis
      by (subst drain.simps) (simp add: from_int_def)
  next
    case False
    then show ?thesis
      by (subst drain.simps) simp
  qed
qed

lemma iter_range:
  "Value_iter (RangeValue s e :: 'f Value) loc = Inr (Iterator (RangeIterator s e s))
   \<and> (drain (RangeIterator s e s) :: fault + ('f Value list \<times> Iterator))
       = Inr (map (\<lambda>k. Integer (word_of_int k)) [sint s .. sint e - 1],
           RangeIterator s e (if sint s < sint e then e else s))
   \<and> fst (has_next (RangeIterator s e (if sint s < sint e then e else s))) = False"
  by (simp add: drain_range from_iterator_def)

text \<open>
  A String shorter than \<open>2 ^ 31\<close> gives its characters from left to right, each as a
  String of length one, and leaves the iterator at the end where \<^verbatim>\<open>has_next\<close> is false.
\<close>

lemma drain_string:
  "length s < 2 ^ 31 \<Longrightarrow> 0 \<le> sint i \<Longrightarrow> nat (sint i) \<le> length s \<Longrightarrow>
   (drain (StringIterator s i) :: fault + ('f Value list \<times> Iterator))
     = Inr (map (\<lambda>c. String [c]) (drop (nat (sint i)) s), StringIterator s (word_of_nat (length s)))"
proof (induction "length s - nat (sint i)" arbitrary: i rule: less_induct)
  case less
  show ?case
  proof (cases "nat (sint i) < length s")
    case True
    with less.prems have fits: "i32_fits (sint i + 1)"
      by (simp add: i32_fits_def)
    then have succ: "sint (i + 1) = sint i + 1"
      by (rule sint_succ_i32)
    with less.prems have next_pos: "nat (sint (i + 1)) = Suc (nat (sint i))"
      by simp
    with True less.prems
    have "(drain (StringIterator s (i + 1)) :: fault + ('f Value list \<times> Iterator))
        = Inr (map (\<lambda>c. String [c]) (drop (nat (sint (i + 1))) s),
            StringIterator s (word_of_nat (length s)))"
      by (intro less.hyps) simp_all
    moreover from True have "drop (nat (sint i)) s = s ! nat (sint i) # drop (Suc (nat (sint i))) s"
      by (simp add: Cons_nth_drop_Suc)
    ultimately show ?thesis
      using True fits less.prems next_pos
      by (subst drain.simps) (simp add: size_t_of_int_nonneg from_string_def)
  next
    case False
    with less.prems have len: "nat (sint i) = length s"
      by simp
    with less.prems have "word_of_nat (length s) = i"
      using i32_of_nat_sint [of i] by simp
    with len less.prems show ?thesis
      by (subst drain.simps) (simp add: size_t_of_int_nonneg)
  qed
qed

lemma iter_string:
  "length s < 2 ^ 31 \<Longrightarrow>
   Value_iter (String s :: 'f Value) loc = Inr (Iterator (StringIterator s 0))
   \<and> (drain (StringIterator s 0) :: fault + ('f Value list \<times> Iterator))
       = Inr (map (\<lambda>c. String [c]) s, StringIterator s (word_of_nat (length s)))"
  using drain_string [of s 0] by (simp add: from_iterator_def)

text \<open>
  An iterator that was drained stays drained: the interface has no operation that moves
  a cursor back, and draining again gives nothing.
\<close>

lemma drain_again:
  "has_next it = (False, it1) \<Longrightarrow>
   (drain it :: fault + ('f Value list \<times> Iterator)) = Inr ([], it1)"
  by (subst drain.simps) simp

text \<open>
  From \<open>2 ^ 31\<close> characters on the \<^verbatim>\<open>int\<close> cursor cannot reach the end of the string:
  the increment at the largest \<^verbatim>\<open>int\<close> overflows while characters are left.
\<close>

lemma drain_string_overflow:
  "2 ^ 31 \<le> length s \<Longrightarrow> 0 \<le> sint i \<Longrightarrow>
   (drain (StringIterator s i) :: fault + ('f Value list \<times> Iterator)) = Inl UndefinedBehaviour"
proof (induction "remaining (StringIterator s i)" arbitrary: i rule: less_induct)
  case less
  have "sint i < 2 ^ (LENGTH(32) - 1)"
    by (rule sint_lt)
  then have bound: "sint i < 2 ^ 31"
    by simp
  with less.prems have pos: "size_t_of_int i < length s"
    by (simp add: size_t_of_int_nonneg)
  show ?case
  proof (cases "i32_fits (sint i + 1)")
    case True
    then have succ: "sint (i + 1) = sint i + 1"
      by (rule sint_succ_i32)
    with bound less.prems
    have "(drain (StringIterator s (i + 1)) :: fault + ('f Value list \<times> Iterator))
        = Inl UndefinedBehaviour"
      by (intro less.hyps) simp_all
    with True pos show ?thesis
      by (subst drain.simps) simp
  next
    case False
    with pos show ?thesis
      by (subst drain.simps) simp
  qed
qed

text \<open>
  C6, where the code departs from it: the iterator of every String is to give each of its
  characters once, from left to right, and then have \<^verbatim>\<open>has_next\<close> false (as the
  iterator of a Range does for its integers, and that of a shorter String for its
  characters, above). At the String of \<open>2 ^ 31 + 1\<close> characters \<open>a\<close> the code gives no
  such sequence.
\<close>

theorem string_cursor_beyond_int:
  "Value_iter (String (replicate 2147483649 CHR ''a'') :: 'f Value) loc
     = Inr (Iterator (StringIterator (replicate 2147483649 CHR ''a'') 0))
   \<and> (drain (StringIterator (replicate 2147483649 CHR ''a'') 0)
        :: fault + ('f Value list \<times> Iterator))
     = Inl UndefinedBehaviour"
  by (simp add: drain_string_overflow from_iterator_def)

text \<open>
  C7. On a Value that is neither a String nor a Range, \<^verbatim>\<open>iter\<close> ends in \<^verbatim>\<open>error\<close>
  with the location it was given, and returns no Value.
\<close>

theorem iter_not_iterable:
  "kind v \<noteq> VK_String \<Longrightarrow> kind v \<noteq> VK_Range \<Longrightarrow>
   Value_iter v loc = Inl (Exit (loc @ '': Error: value is not iterable'' @ [CHR 0x0A]) 1)"
  by (cases v) (simp_all add: error_def)

theorem iter_not_iterable_witness:
  "kind (Integer 5 :: rat Value) \<noteq> VK_String \<and> kind (Integer 5 :: rat Value) \<noteq> VK_Range
   \<and> Value_iter (Integer 5 :: rat Value) ''a.sp:1''
       = Inl (Exit ''a.sp:1: Error: value is not iterable\<newline>'' 1)"
  using iter_not_iterable [of "Integer 5 :: rat Value" "''a.sp:1''"]
  by simp

text \<open>
  C9. \<^verbatim>\<open>has_next\<close> leaves the iterator as it found it, whatever its state, so that
  calling it again gives the same answer.
\<close>

theorem has_next_pure:
  "snd (has_next it) = it \<and> has_next (snd (has_next it)) = has_next it"
  by (cases it) simp_all

section \<open>Printing\<close>

text \<open>The text written for a natural number is its decimal form.\<close>

lemma of_char_digit: "d < 10 \<Longrightarrow> (of_char (digit d) :: nat) = 48 + d"
proof -
  assume "d < 10"
  then consider "d = 0" | "d = 1" | "d = 2" | "d = 3" | "d = 4" | "d = 5" | "d = 6" | "d = 7"
    | "d = 8" | "d = 9"
    by (auto simp: less_Suc_eq numeral_eq_Suc)
  then show ?thesis
    by cases (simp_all add: digit_def)
qed

lemma decimal_not_empty: "decimal n \<noteq> []"
  by (subst decimal.simps) simp

lemma decimal_digits:
  "c \<in> set (decimal n) \<Longrightarrow> 48 \<le> (of_char c :: nat) \<and> (of_char c :: nat) \<le> 57"
proof (induction n rule: decimal.induct)
  case (1 n)
  show ?case
  proof (cases "n < 10")
    case True
    with "1.prems" have "c = digit n"
      by (subst (asm) decimal.simps) simp
    with True show ?thesis
      by (simp add: of_char_digit)
  next
    case False
    with "1.prems" have "c \<in> set (decimal (n div 10)) \<or> c = digit (n mod 10)"
      by (subst (asm) decimal.simps) auto
    then show ?thesis
    proof
      assume "c \<in> set (decimal (n div 10))"
      with False "1.IH" show ?thesis
        by blast
    next
      assume "c = digit (n mod 10)"
      then show ?thesis
        by (simp add: of_char_digit)
    qed
  qed
qed

lemma decimal_reads_back:
  "foldl (\<lambda>acc c. 10 * acc + (of_char c - 48)) 0 (decimal n) = n"
proof (induction n rule: decimal.induct)
  case (1 n)
  show ?case
  proof (cases "n < 10")
    case True
    then show ?thesis
      by (subst decimal.simps) (simp add: of_char_digit)
  next
    case False
    with 1 show ?thesis
      by (subst decimal.simps) (simp add: of_char_digit)
  qed
qed

lemma decimal_leading_zero: "hd (decimal n) = CHR ''0'' \<Longrightarrow> decimal n = ''0''"
proof (induction n rule: decimal.induct)
  case (1 n)
  show ?case
  proof (cases "n < 10")
    case True
    with "1.prems" have "digit n = CHR ''0''"
      by (subst (asm) decimal.simps) simp
    then have "(of_char (digit n) :: nat) = 48"
      by simp
    with True have "n = 0"
      by (simp add: of_char_digit)
    then show ?thesis
      by (subst decimal.simps) (simp add: digit_def)
  next
    case False
    with "1.prems" have "hd (decimal (n div 10)) = CHR ''0''"
      by (subst (asm) decimal.simps) (simp add: decimal_not_empty)
    with False "1.IH" have "decimal (n div 10) = ''0''"
      by blast
    then have "foldl (\<lambda>acc c. 10 * acc + (of_char c - 48)) 0 (decimal (n div 10)) = (0 :: nat)"
      by simp
    then have "n div 10 = 0"
      by (simp only: decimal_reads_back)
    with False show ?thesis
      by simp
  qed
qed

lemma decimal_form_decimal: "decimal_form (decimal n) n"
  unfolding decimal_form_def
  using decimal_not_empty decimal_digits decimal_reads_back decimal_leading_zero
  by blast

lemma show_i64_examples:
  "show_i64 0 = ''0'' \<and> show_i64 (- 512) = ''-512''
   \<and> show_i64 9223372036854775807 = ''9223372036854775807''
   \<and> show_i64 (- 9223372036854775808) = ''-9223372036854775808''"
  by (simp add: show_i64_def digit_def decimal.simps)

lemma print_args_concat:
  "print_args ops args = concat (map (\<lambda>arg. print_arg ops arg @ '' '') args)"
  by (induction args) simp_all

text \<open>
  C8. \<^verbatim>\<open>print\<close> writes the text of each argument followed by a space, then one
  newline, and returns \<^verbatim>\<open>Nothing\<close>. The text of an argument is the one of its kind:
  \<open>nothing\<close>; for an Integer that is not negative the decimal form of its value, for a
  negative one a minus sign and the decimal form of its magnitude; for a Float what the
  output stream writes for a \<^verbatim>\<open>double\<close>; the contents of a String; for a Range the
  texts of the Integers \<open>start\<close> and \<open>end\<close> with two dots between them;
  \<open><iterator>\<close>; \<open><builtin function: NAME>\<close>.
\<close>

theorem print_renders:
  "print ops args loc
     = (concat (map (\<lambda>arg. print_arg ops arg @ '' '') args) @ [CHR 0x0A], Inr Nothing)
   \<and> print_arg ops Nothing = ''nothing''
   \<and> (0 \<le> sint i \<longrightarrow> decimal_form (print_arg ops (Integer i)) (nat (sint i)))
   \<and> (sint i < 0 \<longrightarrow>
        print_arg ops (Integer i) \<noteq> [] \<and> hd (print_arg ops (Integer i)) = CHR ''-''
        \<and> decimal_form (tl (print_arg ops (Integer i))) (nat (- sint i)))
   \<and> print_arg ops (Float x) = f64_show ops x
   \<and> print_arg ops (String str) = str
   \<and> print_arg ops (RangeValue s e)
       = print_arg ops (Integer s) @ ''..'' @ print_arg ops (Integer e)
   \<and> print_arg ops (Iterator it) = ''<iterator>''
   \<and> print_arg ops (BuiltInFunction name func) = ''<builtin function: '' @ name @ ''>''
   \<and> print ops [Nothing, Integer 5] loc = (''nothing 5 '' @ [CHR 0x0A], Inr Nothing)"
proof (intro conjI impI)
  show "print ops args loc
      = (concat (map (\<lambda>arg. print_arg ops arg @ '' '') args) @ [CHR 0x0A], Inr Nothing)"
    by (simp add: print_def print_args_concat)
  show "print ops [Nothing, Integer 5] loc = (''nothing 5 '' @ [CHR 0x0A], Inr Nothing)"
    by (simp add: print_def show_i64_def digit_def decimal.simps)
next
  assume "0 \<le> sint i"
  then show "decimal_form (print_arg ops (Integer i)) (nat (sint i))"
    by (simp add: show_i64_def decimal_form_decimal)
next
  assume neg: "sint i < 0"
  then show "print_arg ops (Integer i) \<noteq> []"
    and "hd (print_arg ops (Integer i)) = CHR ''-''"
    and "decimal_form (tl (print_arg ops (Integer i))) (nat (- sint i))"
    by (simp_all add: show_i64_def decimal_form_decimal)
qed simp_all

text \<open>
  At the arguments \<open>Nothing\<close>, \<open>-512\<close>, the Range from 0 to 10 and 5: the texts
  \<open>-512\<close> and \<open>5\<close>, which are the decimal forms of 512 and of 5.
\<close>

theorem print_renders_witness:
  "sint (- 512 :: i64) < 0
   \<and> print_arg exact_ops (Integer (- 512)) = ''-512'' \<and> decimal_form ''512'' 512
   \<and> 0 \<le> sint (5 :: i64)
   \<and> print_arg exact_ops (Integer 5) = ''5'' \<and> decimal_form ''5'' 5
   \<and> print exact_ops [Nothing, Integer (- 512), RangeValue 0 10, Integer 5] []
       = (''nothing -512 0..10 5 '' @ [CHR 0x0A], Inr Nothing)"
proof -
  have neg: "sint (- 512 :: i64) < 0" and pos: "0 \<le> sint (5 :: i64)"
    by simp_all
  have texts: "print_arg exact_ops (Integer (- 512)) = ''-512''"
    "print_arg exact_ops (Integer 5) = ''5''"
    by (simp_all add: show_i64_def digit_def decimal.simps)
  note minus = print_renders [where ops = exact_ops and i = "- 512" and loc = "[]" and x = 0
      and args = "[Nothing, Integer (- 512), RangeValue 0 10, Integer 5]" and str = "[]"
      and s = 0 and e = 10 and it = "RangeIterator 0 10 0" and name = "[]" and func = 0]
  note plus = print_renders [where ops = exact_ops and i = 5 and loc = "[]" and x = 0
      and args = "[Nothing, Integer (- 512), RangeValue 0 10, Integer 5]" and str = "[]"
      and s = 0 and e = 10 and it = "RangeIterator 0 10 0" and name = "[]" and func = 0]
  from minus neg have "decimal_form (tl (print_arg exact_ops (Integer (- 512)))) (nat (- sint (- 512 :: i64)))"
    by blast
  with texts have a: "decimal_form ''512'' 512"
    by simp
  from plus pos have "decimal_form (print_arg exact_ops (Integer 5)) (nat (sint (5 :: i64)))"
    by blast
  with texts have b: "decimal_form ''5'' 5"
    by simp
  from minus have "print exact_ops [Nothing, Integer (- 512), RangeValue 0 10, Integer 5] []
      = (concat (map (\<lambda>arg. print_arg exact_ops arg @ '' '')
           [Nothing, Integer (- 512), RangeValue 0 10, Integer 5]) @ [CHR 0x0A], Inr Nothing)"
    by blast
  then have c: "print exact_ops [Nothing, Integer (- 512), RangeValue 0 10, Integer 5] []
      = (''nothing -512 0..10 5 '' @ [CHR 0x0A], Inr Nothing)"
    by (simp add: show_i64_def digit_def decimal.simps)
  from neg pos texts a b c show ?thesis
    by blast
qed

section \<open>Construction\<close>

text \<open>
  C10. Each factory returns the Value of its kind with the payload it was given and has
  no failing branch. A Range whose start is not below its end is built like any other,
  and its iterator is at its end from the start.
\<close>

theorem factories_total:
  "(from_int i :: 'f Value) = Integer i \<and> kind (from_int i :: 'f Value) = VK_Integer
   \<and> (from_string str :: 'f Value) = String str \<and> kind (from_string str :: 'f Value) = VK_String
   \<and> from_float (x :: 'f) = Float x \<and> kind (from_float x) = VK_Float
   \<and> (from_range s e :: 'f Value) = RangeValue s e \<and> kind (from_range s e :: 'f Value) = VK_Range
   \<and> (from_iterator it :: 'f Value) = Iterator it \<and> kind (from_iterator it :: 'f Value) = VK_Iterator
   \<and> (from_builtin name func :: 'f Value) = BuiltInFunction name func
   \<and> kind (from_builtin name func :: 'f Value) = VK_BuiltInFunction
   \<and> (sint e \<le> sint s \<longrightarrow>
        Value_iter (from_range s e :: 'f Value) loc = Inr (Iterator (RangeIterator s e s))
        \<and> has_next (RangeIterator s e s) = (False, RangeIterator s e s)
        \<and> (drain (RangeIterator s e s) :: fault + ('f Value list \<times> Iterator))
            = Inr ([], RangeIterator s e s))"
  by (simp add: from_int_def from_string_def from_float_def from_range_def from_iterator_def
      from_builtin_def drain_again)

theorem factories_total_witness:
  "sint (0 :: i64) \<le> sint (3 :: i64)
   \<and> Value_iter (from_range 3 0 :: rat Value) ''a.sp:1'' = Inr (Iterator (RangeIterator 3 0 3))
   \<and> has_next (RangeIterator 3 0 3) = (False, RangeIterator 3 0 3)
   \<and> (drain (RangeIterator 3 0 3) :: fault + (rat Value list \<times> Iterator))
       = Inr ([], RangeIterator 3 0 3)"
proof -
  have h: "sint (0 :: i64) \<le> sint (3 :: i64)"
    by simp
  note t = factories_total [where 'f = rat and s = 3 and e = 0 and loc = "''a.sp:1''" and i = 0
      and str = "[]" and x = 0 and it = "RangeIterator 3 0 3" and name = "[]" and func = 0]
  from t h have "Value_iter (from_range 3 0 :: rat Value) ''a.sp:1''
        = Inr (Iterator (RangeIterator 3 0 3))
      \<and> has_next (RangeIterator 3 0 3) = (False, RangeIterator 3 0 3)
      \<and> (drain (RangeIterator 3 0 3) :: fault + (rat Value list \<times> Iterator))
        = Inr ([], RangeIterator 3 0 3)"
    by blast
  with h show ?thesis
    by blast
qed

end
